theory Spec2Isabelle
  imports Complex_Main
begin

section \<open>Exceptions\<close>

text \<open>
  Python exceptions are values of the datatype \<open>exn\<close>; a computation that may raise returns
  a sum, \<open>Inl e\<close> for "raised \<open>e\<close>" and \<open>Inr v\<close> for "returned \<open>v\<close>".  Every constructor
  stands for the instances of one class, subclasses included, that the source or the
  libraries under it name in an \<open>except\<close> clause, a test or a \<open>raise\<close>; \<open>Exception m\<close>
  is an instance of \<open>Exception\<close> itself with the message \<open>m\<close>; \<open>OtherError\<close> stands for
  an instance of a class that is none of these, identified by its class name and by the
  truth value of the object.
  \<open>ConnectionError c\<close> carries the \<open>__cause__\<close> set by \<open>raise ConnectionError from e\<close>.

  The type holds instances of \<open>Exception\<close> only, which is what \<open>except Exception\<close>
  catches.
\<close>

datatype exn =
    GaiError
  | SocketTimeout
  | TimeoutError
  | AuthenticationException
  | ConnectionError "exn option"
  | ZeroDivisionError
  | IndexError
  | ValueError
  | TypeError
  | StopIteration
  | Exception string
  | OtherError string bool

fun is_ConnectionError :: "exn \<Rightarrow> bool" where
  "is_ConnectionError (ConnectionError c) = True"
| "is_ConnectionError e = False"

text \<open>
  \<open>bool(e)\<close>, which a test such as \<open>if last_exception:\<close> evaluates.  An object is truthy
  unless its class defines \<open>__bool__\<close> or \<open>__len__\<close>; the classes named above define
  neither, another class may.
\<close>

fun exn_bool :: "exn \<Rightarrow> bool" where
  "exn_bool (OtherError name truth) = truth"
| "exn_bool e = True"

text \<open>
  \<open>SocketTimeout\<close> is \<open>socket.timeout\<close> and \<open>TimeoutError\<close> is the builtin of that
  name.  Before Python 3.10 these are two unrelated classes; from 3.10 on
  \<open>socket.timeout\<close> is another name of \<open>TimeoutError\<close>, so an \<open>except\<close> clause for
  either catches both.  The flag \<open>alias\<close> says which interpreter runs the code.
\<close>

definition isinstance_socket_timeout :: "bool \<Rightarrow> exn \<Rightarrow> bool" where
  "isinstance_socket_timeout alias e = (e = SocketTimeout \<or> (alias \<and> e = TimeoutError))"

definition isinstance_TimeoutError :: "bool \<Rightarrow> exn \<Rightarrow> bool" where
  "isinstance_TimeoutError alias e = (e = TimeoutError \<or> (alias \<and> e = SocketTimeout))"

section \<open>Failover: \<open>JumpHost.try_function_on_any\<close>\<close>

text \<open>
  The unit of work is a function of a candidate that acts on a state \<open>'s\<close> (for
  \<open>lambda jh: jh.connect()\<close> the state holds the hosts' caches and the outside world) and
  either raises or returns.  The \<open>for\<close> loop ends in one of two ways: by \<open>break\<close> with
  \<open>successful_host\<close> and \<open>result\<close> set, or by exhausting the candidates, which runs the
  \<open>else\<close> clause of the loop with the \<open>last_exception\<close> recorded so far.  The two
  \<open>except\<close> clauses differ in the text they log only.
\<close>

datatype ('h, 'r) loop_exit = Break 'h 'r | Exhausted "exn option"

fun for_loop ::
  "('h \<Rightarrow> 's \<Rightarrow> (exn + 'r) \<times> 's) \<Rightarrow> 'h list \<Rightarrow> exn option \<Rightarrow> 's \<Rightarrow> ('h, 'r) loop_exit \<times> 's"
where
  "for_loop func [] last_exception s = (Exhausted last_exception, s)"
| "for_loop func (host # jump_hosts) last_exception s =
     (case func host s of
        (Inl e, s') \<Rightarrow>
          (if is_ConnectionError e then for_loop func jump_hosts (Some e) s'
           else for_loop func jump_hosts (Some e) s')
      | (Inr result, s') \<Rightarrow> (Break host result, s'))"

text \<open>
  The two tests after the loop are tests of truth values: \<open>if last_exception:\<close> holds
  when an exception was recorded and that object is truthy, and \<open>if successful_host:\<close>
  holds when the candidate the loop stopped at is truthy.  \<open>host_bool\<close> is \<open>bool\<close> on
  the candidates.
\<close>

definition try_function_on_any ::
  "('h \<Rightarrow> bool) \<Rightarrow> ('h \<Rightarrow> 's \<Rightarrow> (exn + 'r) \<times> 's) \<Rightarrow> 'h list \<Rightarrow> 's
     \<Rightarrow> (exn + 'h \<times> 'r) \<times> 's"
where
  "try_function_on_any host_bool func jump_hosts s =
     (case for_loop func jump_hosts None s of
        (Exhausted last_exception, s') \<Rightarrow>
          (case last_exception of
             Some e \<Rightarrow>
               (if exn_bool e then (Inl e, s')
                else (Inl (Exception ''No hosts provided''), s'))
           | None \<Rightarrow> (Inl (Exception ''No hosts provided''), s'))
      | (Break successful_host result, s') \<Rightarrow>
          (if host_bool successful_host then (Inr (successful_host, result), s')
           else (Inl (Exception ''Unreachable code.''), s')))"



section \<open>Endpoints: class \<open>JumpHost\<close>\<close>

text \<open>
  The connection factory, the \<open>open()\<close> method of the handle it returns and the docker
  client factory are code outside the repository.  Each is a function on an abstract
  outside world \<open>'e\<close> (network, remote daemons, whatever a fake records about its calls):
  it takes the world, raises or returns, and leaves a new world.  The functions are
  arbitrary, so a computation that hands back the world it was given, whatever they are,
  has called none of them.

  A connection handle is an object with an identity and an \<open>open()\<close> method; \<open>open()\<close>
  returns nothing, so its outcome is the exception it raised, if any.  Factories return
  handles, never \<open>None\<close>.

  The objects are instances of \<open>JumpHost\<close> itself.  The subclass \<open>LocalHost\<close>, which
  overrides \<open>connect\<close> and \<open>docker_client\<close> to build a local context or client on
  every call and caches nothing, is not part of the model.
\<close>

record 'e connection =
  conn_id :: nat
  conn_open :: "'e \<Rightarrow> exn option \<times> 'e"

datatype docker_client = DockerClient nat

record 'e jump_host =
  host :: string
  connection_func :: "string \<Rightarrow> 'e \<Rightarrow> (exn + 'e connection) \<times> 'e"
  docker_client_func :: "string \<Rightarrow> 'e \<Rightarrow> (exn + docker_client) \<times> 'e"
  cached_docker_client :: "docker_client option"
  cached_connection :: "'e connection option"

text \<open>
  \<open>JumpHost\<close> objects are mutable and are compared by identity (\<open>host is GOOD_HOST_ONE\<close>),
  so they live in a store: a reference is an index into the list of objects allocated so
  far, and allocation appends.  The world of a program is the store and the outside world.
\<close>

type_synonym ref = nat

record 'e world =
  heap :: "'e jump_host list"
  env :: 'e

text \<open>
  The interpreter and the library functions the module refers to by name: whether
  \<open>socket.timeout\<close> is \<open>TimeoutError\<close>, \<open>fabric.Connection\<close>, \<open>docker.from_env\<close>
  (called with its \<open>environment\<close> keyword) and \<open>random.shuffle\<close>, whose source of
  randomness is part of the outside world.
\<close>

record 'e library =
  timeout_alias :: bool
  fabric_Connection :: "string \<Rightarrow> 'e \<Rightarrow> (exn + 'e connection) \<times> 'e"
  docker_from_env :: "(string \<times> string) list \<Rightarrow> 'e \<Rightarrow> (exn + docker_client) \<times> 'e"
  random_shuffle :: "ref list \<Rightarrow> 'e \<Rightarrow> ref list \<times> 'e"

definition remote_docker_connection ::
  "'e library \<Rightarrow> string \<Rightarrow> 'e \<Rightarrow> (exn + docker_client) \<times> 'e"
where
  "remote_docker_connection lib hostname =
     docker_from_env lib [(''DOCKER_HOST'', ''ssh://'' @ hostname)]"

definition JumpHost_init ::
  "string \<Rightarrow> (string \<Rightarrow> 'e \<Rightarrow> (exn + 'e connection) \<times> 'e)
     \<Rightarrow> (string \<Rightarrow> 'e \<Rightarrow> (exn + docker_client) \<times> 'e) \<Rightarrow> 'e jump_host"
where
  "JumpHost_init h cf df =
     \<lparr>host = h, connection_func = cf, docker_client_func = df,
      cached_docker_client = None, cached_connection = None\<rparr>"

text \<open>\<open>JumpHost(h)\<close>: a new object built with the default arguments of \<open>__init__\<close>.\<close>

definition JumpHost_new :: "'e library \<Rightarrow> string \<Rightarrow> 'e world \<Rightarrow> ref \<times> 'e world" where
  "JumpHost_new lib h w =
     (length (heap w),
      w\<lparr>heap := heap w @ [JumpHost_init h (fabric_Connection lib) (remote_docker_connection lib)]\<rparr>)"

subsection \<open>\<open>connect\<close>\<close>

text \<open>The body of the \<open>try\<close> block: the factory, then \<open>open()\<close> on what it returned.\<close>

definition connect_try :: "'e jump_host \<Rightarrow> 'e \<Rightarrow> (exn + 'e connection) \<times> 'e" where
  "connect_try self x =
     (case connection_func self (host self) x of
        (Inl e, x') \<Rightarrow> (Inl e, x')
      | (Inr connection, x') \<Rightarrow>
          (case conn_open connection x' of
             (Some e, x'') \<Rightarrow> (Inl e, x'')
           | (None, x'') \<Rightarrow> (Inr connection, x'')))"

definition connect :: "bool \<Rightarrow> ref \<Rightarrow> 'e world \<Rightarrow> (exn + 'e connection) \<times> 'e world" where
  "connect alias self w =
     (case cached_connection (heap w ! self) of
        Some c \<Rightarrow> (Inr c, w)
      | None \<Rightarrow>
          (case connect_try (heap w ! self) (env w) of
             (Inl e, x) \<Rightarrow>
               (if e = GaiError then (Inl (ConnectionError (Some e)), w\<lparr>env := x\<rparr>)
                else if isinstance_socket_timeout alias e
                  then (Inl (ConnectionError (Some e)), w\<lparr>env := x\<rparr>)
                else if e = AuthenticationException
                  then (Inl (ConnectionError (Some e)), w\<lparr>env := x\<rparr>)
                else (Inl e, w\<lparr>env := x\<rparr>))
           | (Inr connection, x) \<Rightarrow>
               (Inr connection,
                w\<lparr>heap := (heap w)[self := (heap w ! self)\<lparr>cached_connection := Some connection\<rparr>],
                  env := x\<rparr>)))"

subsection \<open>\<open>docker_client\<close>\<close>

definition docker_client ::
  "bool \<Rightarrow> ref \<Rightarrow> 'e world \<Rightarrow> (exn + docker_client) \<times> 'e world"
where
  "docker_client alias self w =
     (case cached_docker_client (heap w ! self) of
        Some c \<Rightarrow> (Inr c, w)
      | None \<Rightarrow>
          (case docker_client_func (heap w ! self) (host (heap w ! self)) (env w) of
             (Inl e, x) \<Rightarrow>
               (if e = GaiError then (Inl (ConnectionError (Some e)), w\<lparr>env := x\<rparr>)
                else if isinstance_TimeoutError alias e
                  then (Inl (ConnectionError (Some e)), w\<lparr>env := x\<rparr>)
                else if e = AuthenticationException
                  then (Inl (ConnectionError (Some e)), w\<lparr>env := x\<rparr>)
                else (Inl e, w\<lparr>env := x\<rparr>))
           | (Inr client, x) \<Rightarrow>
               (Inr client,
                w\<lparr>heap := (heap w)[self := (heap w ! self)\<lparr>cached_docker_client := Some client\<rparr>],
                  env := x\<rparr>)))"

subsection \<open>\<open>try_connect_to_any\<close>\<close>

text \<open>
  A \<open>JumpHost\<close> object is truthy: the class defines neither \<open>__bool__\<close> nor \<open>__len__\<close>.
\<close>

definition JumpHost_bool :: "ref \<Rightarrow> bool" where
  "JumpHost_bool self = True"

definition try_connect_to_any ::
  "bool \<Rightarrow> ref list \<Rightarrow> 'e world \<Rightarrow> (exn + ref \<times> 'e connection) \<times> 'e world"
where
  "try_connect_to_any alias jump_hosts w =
     try_function_on_any JumpHost_bool (connect alias) jump_hosts w"

section \<open>Selection: \<open>JumpHost.choose_from\<close>\<close>

text \<open>
  The override is \<open>None\<close>, an \<open>int\<close> or a \<open>str\<close>.  A \<open>str\<close> is a list of characters, one
  per code point; the model covers the code points below 256.  Among them
  \<open>str.isnumeric\<close> accepts the ten ASCII digits and the six characters U+00B2, U+00B3,
  U+00B9, U+00BC, U+00BD, U+00BE (superscript digits and vulgar fractions), and it rejects
  the empty string.  \<open>int()\<close> is applied only to strings \<open>isnumeric\<close> has accepted; it
  reads a string of ASCII digits in base ten and raises \<open>ValueError\<close> on the other six
  characters.
\<close>

datatype override = NoOverride | IntOverride int | StrOverride string

definition is_ascii_digit :: "char \<Rightarrow> bool" where
  "is_ascii_digit c = (c \<in> set ''0123456789'')"

definition isnumeric_char :: "char \<Rightarrow> bool" where
  "isnumeric_char c =
     (is_ascii_digit c \<or> (of_char c :: nat) \<in> set [178, 179, 185, 188, 189, 190])"

definition isnumeric :: "string \<Rightarrow> bool" where
  "isnumeric s = (s \<noteq> [] \<and> list_all isnumeric_char s)"

definition digits_value :: "string \<Rightarrow> int" where
  "digits_value s = foldl (\<lambda>n c. 10 * n + (of_char c - 48)) 0 s"

definition int_of_numeric :: "string \<Rightarrow> exn + int" where
  "int_of_numeric s =
     (if list_all is_ascii_digit s then Inr (digits_value s) else Inl ValueError)"

text \<open>
  \<open>default_hosts\<close> is a tuple; indexing it with a negative number counts from the end, and
  an index outside \<open>-n .. n-1\<close> raises \<open>IndexError\<close>.
\<close>

definition tuple_getitem :: "'a list \<Rightarrow> int \<Rightarrow> exn + 'a" where
  "tuple_getitem xs i =
     (if 0 \<le> i \<and> i < int (length xs) then Inr (xs ! nat i)
      else if - int (length xs) \<le> i \<and> i < 0 then Inr (xs ! nat (int (length xs) + i))
      else Inl IndexError)"

text \<open>
  The three branches of the source in its order: the index (an \<open>int\<close>, or a \<open>str\<close> that
  \<open>isnumeric\<close>), any other override that is not \<open>None\<close>, and no override.
\<close>

definition choose_from ::
  "'e library \<Rightarrow> ref list \<Rightarrow> override \<Rightarrow> 'e world \<Rightarrow> (exn + ref) \<times> 'e world"
where
  "choose_from lib default_hosts ov w =
     (case ov of
        IntOverride i \<Rightarrow> (tuple_getitem default_hosts (i - 1), w)
      | StrOverride s \<Rightarrow>
          (if isnumeric s then
             (case int_of_numeric s of
                Inl e \<Rightarrow> (Inl e, w)
              | Inr i \<Rightarrow> (tuple_getitem default_hosts (i - 1), w))
           else (case JumpHost_new lib s w of (r, w') \<Rightarrow> (Inr r, w')))
      | NoOverride \<Rightarrow>
          (case random_shuffle lib default_hosts (env w) of
             (default_host_list, x) \<Rightarrow>
               (case try_function_on_any JumpHost_bool (connect (timeout_alias lib))
                       default_host_list (w\<lparr>env := x\<rparr>) of
                  (Inl e, w') \<Rightarrow> (Inl e, w')
                | (Inr (h, _), w') \<Rightarrow> (Inr h, w'))))"

section \<open>Fan-out: \<open>run_in_parallel\<close>\<close>

text \<open>
  The work is a function of its operand: it raises or returns, and its outcome does not
  depend on the other tasks.  What a task leaves in the result is a Python value, either
  what the work returned or, when exceptions are returned, the exception object.

  A call of \<open>run_in_parallel\<close> raises, returns, or never returns; the last is the value
  \<open>None\<close> of the option type.
\<close>

datatype 'b pyval = Returned 'b | ExnObject exn

text \<open>
  \<open>await loop.run_in_executor(executor, job)\<close>: the job runs on a thread of the pool and
  its outcome is copied into a future of the event loop, which the coroutine awaits.  A
  future of the event loop refuses \<open>StopIteration\<close> as its exception, so when the job
  raises \<open>StopIteration\<close> the future is never completed and the \<open>await\<close> never resumes.
\<close>

definition run_in_executor :: "('a \<Rightarrow> exn + 'b) \<Rightarrow> 'a \<Rightarrow> (exn + 'b) option" where
  "run_in_executor job op =
     (case job op of
        Inr v \<Rightarrow> Some (Inr v)
      | Inl e \<Rightarrow> (if e = StopIteration then None else Some (Inl e)))"

definition coroutine ::
  "('a \<Rightarrow> exn + 'b) \<Rightarrow> bool \<Rightarrow> 'a \<Rightarrow> (exn + 'a \<times> 'b pyval) option"
where
  "coroutine operator_func return_exceptions op =
     (case run_in_executor operator_func op of
        None \<Rightarrow> None
      | Some (Inr v) \<Rightarrow> Some (Inr (op, Returned v))
      | Some (Inl e) \<Rightarrow>
          (if return_exceptions then Some (Inr (op, ExnObject e)) else Some (Inl e)))"

text \<open>
  \<open>ThreadPoolExecutor(max_workers=n)\<close> raises \<open>ValueError\<close> unless \<open>n\<close> is positive.
\<close>

definition ThreadPoolExecutor :: "int \<Rightarrow> exn option" where
  "ThreadPoolExecutor max_workers = (if max_workers \<le> 0 then Some ValueError else None)"

text \<open>
  \<open>asyncio.gather\<close> without \<open>return_exceptions\<close>.  When some task raises, \<open>gather\<close>
  raises the exception of the task that is the first to finish among those that raise,
  without waiting for the others.  Which one that is depends on the scheduler, so the
  instant \<open>finish i\<close> at which task \<open>i\<close> finishes is a parameter (the earlier task in the
  list wins a tie).  When no task raises, \<open>gather\<close> waits for all of them: it returns the
  list of their results in the order of the tasks, and never returns when one of them
  never finishes.
\<close>

fun raised :: "(exn + 'v) option \<Rightarrow> bool" where
  "raised (Some (Inl e)) = True"
| "raised t = False"

fun all_results :: "(exn + 'v) option list \<Rightarrow> 'v list option" where
  "all_results [] = Some []"
| "all_results (Some (Inr v) # tasks) = map_option ((#) v) (all_results tasks)"
| "all_results (t # tasks) = None"

definition gather :: "(nat \<Rightarrow> nat) \<Rightarrow> (exn + 'v) option list \<Rightarrow> (exn + 'v list) option" where
  "gather finish tasks =
     (case filter (\<lambda>i. raised (tasks ! i)) [0..<length tasks] of
        i # js \<Rightarrow>
          (case tasks ! arg_min_list finish (i # js) of
             Some (Inl e) \<Rightarrow> Some (Inl e)
           | _ \<Rightarrow> None)
      | [] \<Rightarrow> map_option Inr (all_results tasks))"

text \<open>
  \<open>dict(results)\<close>: every key is hashed, which raises \<open>TypeError\<close> for an unhashable one;
  of two pairs with the same key the later one stays.  \<open>hashable\<close> says which operands
  can be hashed.
\<close>

definition dict :: "('k \<Rightarrow> bool) \<Rightarrow> ('k \<times> 'v) list \<Rightarrow> exn + ('k \<rightharpoonup> 'v)" where
  "dict hashable results =
     (if list_all (\<lambda>kv. hashable (fst kv)) results then Inr (map_of (rev results))
      else Inl TypeError)"

definition run_in_parallel ::
  "('a \<Rightarrow> bool) \<Rightarrow> (nat \<Rightarrow> nat) \<Rightarrow> 'a list \<Rightarrow> ('a \<Rightarrow> exn + 'b) \<Rightarrow> bool
     \<Rightarrow> (exn + ('a \<rightharpoonup> 'b pyval)) option"
where
  "run_in_parallel hashable finish operands operator_func return_exceptions =
     (case ThreadPoolExecutor (int (length operands)) of
        Some e \<Rightarrow> Some (Inl e)
      | None \<Rightarrow>
          (case gather finish (map (coroutine operator_func return_exceptions) operands) of
             None \<Rightarrow> None
           | Some (Inl e) \<Rightarrow> Some (Inl e)
           | Some (Inr results) \<Rightarrow> Some (dict hashable results)))"

section \<open>Fixtures\<close>

text \<open>
  The hosts of \<open>tests/test_jump_host.py\<close>, for closed examples.  The outside world of the
  mocks is the number of calls made to them so far; \<open>mock_connect\<close> builds a new mock
  connection on every call, whose \<open>open()\<close> raises the given exception if there is one.
  \<open>MOCK_HOST_GOOD\<close> is a host whose mocks do not raise.  \<open>offline\<close> is a library on a
  machine without network, under Python 3.10 or later: nothing resolves, and the shuffle
  reverses.
\<close>

definition mock_connect :: "exn option \<Rightarrow> nat \<Rightarrow> (exn + nat connection) \<times> nat" where
  "mock_connect open_exception x =
     (Inr \<lparr>conn_id = x, conn_open = (\<lambda>y. (open_exception, Suc y))\<rparr>, Suc x)"

definition offline :: "nat library" where
  "offline =
     \<lparr>timeout_alias = True,
      fabric_Connection = (\<lambda>h x. (Inl GaiError, Suc x)),
      docker_from_env = (\<lambda>environment x. (Inl GaiError, Suc x)),
      random_shuffle = (\<lambda>hs x. (rev hs, x))\<rparr>"

definition BAD_HOST_BAD_CODE :: "nat jump_host" where
  "BAD_HOST_BAD_CODE =
     JumpHost_init ''fakehost'' (\<lambda>h. mock_connect (Some ZeroDivisionError))
       (remote_docker_connection offline)"

definition BAD_HOST_TIMEOUT :: "nat jump_host" where
  "BAD_HOST_TIMEOUT =
     JumpHost_init ''fakehost'' (\<lambda>h. mock_connect (Some SocketTimeout))
       (\<lambda>h x. (Inl TimeoutError, Suc x))"

definition BAD_HOST_DNS_FAILURE :: "nat jump_host" where
  "BAD_HOST_DNS_FAILURE =
     JumpHost_init ''fakehost'' (\<lambda>h. mock_connect (Some GaiError))
       (\<lambda>h x. (Inl GaiError, Suc x))"

definition BAD_HOST_AUTH_FAILURE :: "nat jump_host" where
  "BAD_HOST_AUTH_FAILURE =
     JumpHost_init ''fakehost'' (\<lambda>h. mock_connect (Some AuthenticationException))
       (\<lambda>h x. (Inl AuthenticationException, Suc x))"

definition MOCK_HOST_GOOD :: "nat jump_host" where
  "MOCK_HOST_GOOD =
     JumpHost_init ''goodhost'' (\<lambda>h. mock_connect None)
       (\<lambda>h x. (Inr (DockerClient x), Suc x))"

definition test_world :: "nat world" where
  "test_world =
     \<lparr>heap = [BAD_HOST_BAD_CODE, BAD_HOST_TIMEOUT, MOCK_HOST_GOOD, BAD_HOST_AUTH_FAILURE],
      env = 0\<rparr>"

text \<open>
  Units of work for closed examples, on candidates that are numbered objects: \<open>only_on\<close>
  returns on one candidate and raises on the others, \<open>raising\<close> always raises.
  \<open>nonzero\<close> is a truth value for such candidates under which candidate \<open>0\<close> is falsy,
  as the \<open>int\<close> \<open>0\<close> is.  Then the work functions of \<open>tests/test_parallel.py\<close>, and
  \<open>next_of_empty\<close>, which raises \<open>StopIteration\<close> as \<open>next(iter([]))\<close> does; every
  \<open>int\<close> is hashable.
\<close>

definition nonzero :: "nat \<Rightarrow> bool" where
  "nonzero h = (h \<noteq> 0)"



definition raising :: "exn \<Rightarrow> 'h \<Rightarrow> 's \<Rightarrow> (exn + 'r) \<times> 's" where
  "raising e h s = (Inl e, s)"




section \<open>Properties of the failover loop\<close>









text \<open>
  C3, as stated, fails.  The claim wants the failure on an empty candidate list to be of a
  kind of its own, which tells it apart from the failures of a list whose candidates all
  fail.  The source raises a plain \<open>Exception("No hosts provided")\<close>; a single candidate
  on which the work raises that same plain exception gives the same outcome.
\<close>

theorem no_hosts_not_distinct_counterexample:
  "fst (try_function_on_any nonzero (raising (Exception ''No hosts provided'')) [1::nat] ()) =
   (fst (try_function_on_any nonzero (raising (Exception ''No hosts provided''))
          ([]::nat list) ())
      :: exn + nat \<times> nat)"
  by (simp add: try_function_on_any_def raising_def)

text \<open>
  C3, amended.  Called with an empty candidate list, \<open>try_function_on_any\<close> raises a plain
  \<open>Exception\<close> with the message \<open>No hosts provided\<close>, whatever the unit of work, and
  leaves the state as it was.
\<close>

theorem try_function_on_any_no_hosts:
  "try_function_on_any host_bool func [] s = (Inl (Exception ''No hosts provided''), s)"
  by (simp add: try_function_on_any_def)

section \<open>The test suite's expectations\<close>

text \<open>
  The model run on the cases of \<open>test_try_connect_to_any\<close> and
  \<open>test_jump_host_connection_errors\<close>, on either interpreter: bad hosts are passed over,
  the first host that connects is returned, and when every host fails the last exception
  is raised; \<open>connect\<close> and \<open>docker_client\<close> raise \<open>ConnectionError\<close> on the bad hosts
  the test lists.
\<close>

lemma test_try_connect_to_any:
  "fst (try_connect_to_any alias [0, 1, 2, 3] test_world) =
     Inr (2, \<lparr>conn_id = 4, conn_open = (\<lambda>y. (None, Suc y))\<rparr>)"
  "fst (try_connect_to_any alias [1, 0] test_world) = Inl ZeroDivisionError"
  "fst (try_connect_to_any alias [0, 1] test_world) =
     Inl (ConnectionError (Some SocketTimeout))"
  by (simp_all add: try_connect_to_any_def try_function_on_any_def connect_def connect_try_def
      test_world_def BAD_HOST_BAD_CODE_def BAD_HOST_TIMEOUT_def MOCK_HOST_GOOD_def
      JumpHost_init_def mock_connect_def JumpHost_bool_def isinstance_socket_timeout_def)

lemma test_jump_host_connection_errors:
  "is_ConnectionError (projl (fst (connect alias 1 test_world)))"
  "is_ConnectionError (projl (fst (connect alias 3 test_world)))"
  "is_ConnectionError (projl (fst (docker_client alias 1 test_world)))"
  "is_ConnectionError (projl (fst (docker_client alias 3 test_world)))"
  by (simp_all add: connect_def connect_try_def docker_client_def test_world_def
      BAD_HOST_TIMEOUT_def BAD_HOST_AUTH_FAILURE_def JumpHost_init_def mock_connect_def
      isinstance_socket_timeout_def isinstance_TimeoutError_def)

section \<open>Properties of the selection\<close>

text \<open>A string of ASCII digits is read in base ten, the last character being the units.\<close>

lemma digits_value_snoc:
  "digits_value (s @ [c]) = 10 * digits_value s + (of_char c - 48)"
  by (simp add: digits_value_def)

lemma ascii_digits_isnumeric:
  "s \<noteq> [] \<Longrightarrow> \<forall>c\<in>set s. c \<in> set ''0123456789'' \<Longrightarrow>
     isnumeric s \<and> int_of_numeric s = Inr (digits_value s)"
  by (simp add: isnumeric_def int_of_numeric_def isnumeric_char_def is_ascii_digit_def
      list_all_iff)

lemma tuple_getitem_cases:
  "tuple_getitem xs (i - 1) =
     (if 1 \<le> i \<and> i \<le> int (length xs) then Inr (xs ! nat (i - 1))
      else if - int (length xs) < i \<and> i \<le> 0 then Inr (xs ! nat (i - 1 + int (length xs)))
      else Inl IndexError)"
  by (auto simp: tuple_getitem_def algebra_simps)
text \<open>
  A numeric character that is not an ASCII digit, here U+00B2 (superscript two), passes
  \<open>isnumeric\<close> and makes \<open>int()\<close> raise \<open>ValueError\<close>.
\<close>

lemma choose_from_superscript_two:
  "fst (choose_from offline [0, 1, 2, 3] (StrOverride [CHR 0xB2]) test_world) =
     Inl ValueError"
  by (simp add: choose_from_def isnumeric_def isnumeric_char_def is_ascii_digit_def
      int_of_numeric_def)

text \<open>
  C4, as stated, fails.  The claim has every override index outside \<open>1 .. length\<close> fail
  with an index error.  The source indexes the tuple with \<open>int(override) - 1\<close> and has no
  bounds check of its own, so the override \<open>0\<close> is the index \<open>-1\<close>: with four candidates
  it selects the last one.
\<close>

theorem choose_from_index_zero_counterexample:
  "fst (choose_from offline [0, 1, 2, 3] (IntOverride 0) test_world) = Inr 3"
  by (simp add: choose_from_def tuple_getitem_def)

text \<open>
  C4, amended.  With an integer override \<open>i\<close>, \<open>choose_from\<close> leaves the world as it was
  (no factory is called, no cache is written) and, for \<open>n\<close> candidates: returns
  \<open>candidates[i-1]\<close> when \<open>1 \<le> i \<le> n\<close>; returns \<open>candidates[n+i-1]\<close>, counting from the
  end, when \<open>-n < i \<le> 0\<close>; and raises \<open>IndexError\<close> otherwise.  A non-empty string of the
  digits \<open>0\<close> to \<open>9\<close> behaves exactly as the integer it denotes.
\<close>

theorem choose_from_index:
  "choose_from lib cands (IntOverride i) w =
     (if 1 \<le> i \<and> i \<le> int (length cands) then Inr (cands ! nat (i - 1))
      else if - int (length cands) < i \<and> i \<le> 0
        then Inr (cands ! nat (i - 1 + int (length cands)))
      else Inl IndexError, w)
   \<and> (s \<noteq> [] \<and> (\<forall>c\<in>set s. c \<in> set ''0123456789'') \<longrightarrow>
        choose_from lib cands (StrOverride s) w =
        choose_from lib cands (IntOverride (digits_value s)) w)"
proof (rule conjI)
  show "choose_from lib cands (IntOverride i) w =
     (if 1 \<le> i \<and> i \<le> int (length cands) then Inr (cands ! nat (i - 1))
      else if - int (length cands) < i \<and> i \<le> 0
        then Inr (cands ! nat (i - 1 + int (length cands)))
      else Inl IndexError, w)"
    by (simp only: choose_from_def override.case tuple_getitem_cases)
next
  show "s \<noteq> [] \<and> (\<forall>c\<in>set s. c \<in> set ''0123456789'') \<longrightarrow>
        choose_from lib cands (StrOverride s) w =
        choose_from lib cands (IntOverride (digits_value s)) w"
  proof
    assume "s \<noteq> [] \<and> (\<forall>c\<in>set s. c \<in> set ''0123456789'')"
    then have "isnumeric s \<and> int_of_numeric s = Inr (digits_value s)"
      using ascii_digits_isnumeric by blast
    then show "choose_from lib cands (StrOverride s) w =
        choose_from lib cands (IntOverride (digits_value s)) w"
      by (simp add: choose_from_def)
  qed
qed

theorem choose_from_index_witness:
  "''3'' \<noteq> [] \<and> list_all (\<lambda>c. c \<in> set ''0123456789'') ''3'' \<and> digits_value ''3'' = 3 \<and>
   choose_from offline [0, 1, 2, 3] (IntOverride 3) test_world = (Inr 2, test_world) \<and>
   choose_from offline [0, 1, 2, 3] (StrOverride ''3'') test_world = (Inr 2, test_world)"
proof -
  have h: "''3'' \<noteq> [] \<and> (\<forall>c\<in>set ''3''. c \<in> set ''0123456789'')" by simp
  have d: "digits_value ''3'' = 3" by (simp add: digits_value_def)
  from choose_from_index[of offline "[0, 1, 2, 3]" 3 test_world "''3''"] h d show ?thesis
    by simp
qed

text \<open>
  C9.  For every candidate list (of live objects), \<open>choose_from\<close> with a non-empty string
  override that is not numeric returns a reference to a new \<open>JumpHost\<close>: it is allocated
  by the call, so it is none of the candidates; its \<open>host\<close> is the string; its connection
  factory is \<open>fabric.Connection\<close> and its docker client factory is the module's
  \<open>_remote_docker_connection\<close>, which calls \<open>docker.from_env\<close> with \<open>DOCKER_HOST\<close> set to
  \<open>ssh://\<close> followed by the host name; its caches are empty.  Nothing else changes: the
  objects already in the store and the outside world are as before, so nothing was
  connected to.
\<close>

theorem choose_from_hostname:
  assumes "s \<noteq> []" and "\<not> isnumeric s" and "\<forall>c\<in>set cands. c < length (heap w)"
  shows "\<exists>r new.
           choose_from lib cands (StrOverride s) w = (Inr r, w\<lparr>heap := heap w @ [new]\<rparr>) \<and>
           r = length (heap w) \<and> r \<notin> set cands \<and>
           host new = s \<and>
           connection_func new = fabric_Connection lib \<and>
           docker_client_func new =
             (\<lambda>hostname. docker_from_env lib [(''DOCKER_HOST'', ''ssh://'' @ hostname)]) \<and>
           cached_connection new = None \<and> cached_docker_client new = None"
proof -
  let ?new = "JumpHost_init s (fabric_Connection lib) (remote_docker_connection lib)"
  have "choose_from lib cands (StrOverride s) w =
          (Inr (length (heap w)), w\<lparr>heap := heap w @ [?new]\<rparr>)"
    using assms(2) by (simp add: choose_from_def JumpHost_new_def)
  moreover have "length (heap w) \<notin> set cands" using assms(3) by auto
  moreover have "host ?new = s" "connection_func ?new = fabric_Connection lib"
    "cached_connection ?new = None" "cached_docker_client ?new = None"
    by (simp_all add: JumpHost_init_def)
  moreover have "docker_client_func ?new =
             (\<lambda>hostname. docker_from_env lib [(''DOCKER_HOST'', ''ssh://'' @ hostname)])"
    by (simp add: JumpHost_init_def remote_docker_connection_def fun_eq_iff)
  ultimately show ?thesis by blast
qed

theorem choose_from_hostname_witness:
  "''my-host'' \<noteq> [] \<and> \<not> isnumeric ''my-host'' \<and>
   list_all (\<lambda>c. c < length (heap test_world)) [0, 1, 2, 3] \<and>
   (\<exists>r new.
       choose_from offline [0, 1, 2, 3] (StrOverride ''my-host'') test_world =
         (Inr r, test_world\<lparr>heap := heap test_world @ [new]\<rparr>) \<and>
       r = length (heap test_world) \<and> r \<notin> set [0, 1, 2, 3] \<and>
       host new = ''my-host'' \<and>
       connection_func new = fabric_Connection offline \<and>
       docker_client_func new =
         (\<lambda>hostname. docker_from_env offline [(''DOCKER_HOST'', ''ssh://'' @ hostname)]) \<and>
       cached_connection new = None \<and> cached_docker_client new = None)"
proof -
  have a: "''my-host'' \<noteq> []" by simp
  have b: "\<not> isnumeric ''my-host''"
    by (simp add: isnumeric_def isnumeric_char_def is_ascii_digit_def)
  have c: "\<forall>c\<in>set [0, 1, 2, 3]. c < length (heap test_world)"
    by (simp add: test_world_def)
  have c': "list_all (\<lambda>c. c < length (heap test_world)) [0, 1, 2, 3]"
    by (simp add: test_world_def)
  from choose_from_hostname[OF a b c, of offline] a b c' show ?thesis by blast
qed

section \<open>Properties of the endpoint\<close>

text \<open>
  C5, as stated, fails.  The claim has every failure of the factory or of \<open>open()\<close>, of
  whatever class, come out of \<open>connect\<close> as a \<open>ConnectionError\<close>.  The source catches
  three classes; \<open>BAD_HOST_BAD_CODE\<close> of the test suite, whose \<open>open()\<close> raises
  \<open>ZeroDivisionError\<close>, makes \<open>connect\<close> raise \<open>ZeroDivisionError\<close> itself, as
  \<open>test_try_connect_to_any\<close> expects.
\<close>

theorem connect_unclassified_counterexample:
  "fst (connect False 0 test_world) = Inl ZeroDivisionError \<and>
   fst (connect False 0 test_world) \<noteq> Inl (ConnectionError (Some ZeroDivisionError))"
  by (simp add: connect_def connect_try_def test_world_def BAD_HOST_BAD_CODE_def
      JumpHost_init_def mock_connect_def isinstance_socket_timeout_def)

text \<open>The \<open>try\<close> block of \<open>connect\<close> fails when the factory raises or \<open>open()\<close> does.\<close>

lemma connect_try_failure:
  "connection_func obj (host obj) x0 = (Inl e, x) \<or>
   (\<exists>c x1. connection_func obj (host obj) x0 = (Inr c, x1) \<and> conn_open c x1 = (Some e, x))
   \<Longrightarrow> connect_try obj x0 = (Inl e, x)"
  by (auto simp: connect_try_def)

text \<open>
  C5, amended.  When the connection factory raises \<open>e\<close>, or returns a handle whose
  \<open>open()\<close> raises \<open>e\<close>, inside \<open>connect\<close> on a host with nothing cached: if \<open>e\<close> is a
  name-resolution failure (\<open>socket.gaierror\<close>), a timeout (\<open>socket.timeout\<close>, and with it
  \<open>TimeoutError\<close> on the interpreters where the two are one class) or an authentication
  failure, \<open>connect\<close> raises a \<open>ConnectionError\<close> whose cause is \<open>e\<close>; any other \<open>e\<close> is
  raised unchanged.  In both cases the store is untouched, so the cached connection stays
  unset.  The same holds for \<open>docker_client\<close>, its factory and its cache, the timeout
  class named there being \<open>TimeoutError\<close>.
\<close>

theorem connect_failure:
  "(cached_connection (heap w ! self) = None \<and>
    (connection_func (heap w ! self) (host (heap w ! self)) (env w) = (Inl e, x) \<or>
     (\<exists>c x1. connection_func (heap w ! self) (host (heap w ! self)) (env w) = (Inr c, x1) \<and>
              conn_open c x1 = (Some e, x))) \<longrightarrow>
      connect alias self w =
        (Inl (if e = GaiError \<or> e = SocketTimeout \<or> (alias \<and> e = TimeoutError) \<or>
                 e = AuthenticationException
              then ConnectionError (Some e) else e), w\<lparr>env := x\<rparr>) \<and>
      cached_connection (heap (snd (connect alias self w)) ! self) = None)
   \<and> (cached_docker_client (heap w ! self) = None \<and>
      docker_client_func (heap w ! self) (host (heap w ! self)) (env w) = (Inl e', x') \<longrightarrow>
      docker_client alias self w =
        (Inl (if e' = GaiError \<or> e' = TimeoutError \<or> (alias \<and> e' = SocketTimeout) \<or>
                 e' = AuthenticationException
              then ConnectionError (Some e') else e'), w\<lparr>env := x'\<rparr>) \<and>
      cached_docker_client (heap (snd (docker_client alias self w)) ! self) = None)"
proof (intro conjI impI)
  assume a: "cached_connection (heap w ! self) = None \<and>
    (connection_func (heap w ! self) (host (heap w ! self)) (env w) = (Inl e, x) \<or>
     (\<exists>c x1. connection_func (heap w ! self) (host (heap w ! self)) (env w) = (Inr c, x1) \<and>
              conn_open c x1 = (Some e, x)))"
  then have t: "connect_try (heap w ! self) (env w) = (Inl e, x)"
    by (intro connect_try_failure) blast
  show c: "connect alias self w =
        (Inl (if e = GaiError \<or> e = SocketTimeout \<or> (alias \<and> e = TimeoutError) \<or>
                 e = AuthenticationException
              then ConnectionError (Some e) else e), w\<lparr>env := x\<rparr>)"
    using a t by (simp add: connect_def isinstance_socket_timeout_def)
  show "cached_connection (heap (snd (connect alias self w)) ! self) = None"
    using a by (simp add: c)
next
  assume a: "cached_docker_client (heap w ! self) = None \<and>
      docker_client_func (heap w ! self) (host (heap w ! self)) (env w) = (Inl e', x')"
  show c: "docker_client alias self w =
        (Inl (if e' = GaiError \<or> e' = TimeoutError \<or> (alias \<and> e' = SocketTimeout) \<or>
                 e' = AuthenticationException
              then ConnectionError (Some e') else e'), w\<lparr>env := x'\<rparr>)"
    using a by (simp add: docker_client_def isinstance_TimeoutError_def)
  show "cached_docker_client (heap (snd (docker_client alias self w)) ! self) = None"
    using a by (simp add: c)
qed

theorem connect_failure_witness:
  "cached_connection (heap test_world ! 1) = None \<and>
   connection_func (heap test_world ! 1) (host (heap test_world ! 1)) (env test_world) =
     (Inr \<lparr>conn_id = 0, conn_open = (\<lambda>y. (Some SocketTimeout, Suc y))\<rparr>, 1) \<and>
   conn_open \<lparr>conn_id = 0, conn_open = (\<lambda>y. (Some SocketTimeout, Suc y))\<rparr> 1 =
     (Some SocketTimeout, 2) \<and>
   connect True 1 test_world =
     (Inl (ConnectionError (Some SocketTimeout)), test_world\<lparr>env := 2\<rparr>) \<and>
   cached_connection (heap (snd (connect True 1 test_world)) ! 1) = None \<and>
   cached_docker_client (heap test_world ! 1) = None \<and>
   docker_client_func (heap test_world ! 1) (host (heap test_world ! 1)) (env test_world) =
     (Inl TimeoutError, 1) \<and>
   docker_client True 1 test_world =
     (Inl (ConnectionError (Some TimeoutError)), test_world\<lparr>env := 1\<rparr>) \<and>
   cached_docker_client (heap (snd (docker_client True 1 test_world)) ! 1) = None"
proof -
  have a: "cached_connection (heap test_world ! 1) = None"
    by (simp add: test_world_def BAD_HOST_TIMEOUT_def JumpHost_init_def)
  have b1: "connection_func (heap test_world ! 1) (host (heap test_world ! 1)) (env test_world) =
     (Inr \<lparr>conn_id = 0, conn_open = (\<lambda>y. (Some SocketTimeout, Suc y))\<rparr>, 1)"
    by (simp add: test_world_def BAD_HOST_TIMEOUT_def JumpHost_init_def mock_connect_def)
  have b2: "conn_open \<lparr>conn_id = 0, conn_open = (\<lambda>y. (Some SocketTimeout, Suc y))\<rparr> 1 =
     (Some SocketTimeout, 2)"
    by simp
  have c: "cached_docker_client (heap test_world ! 1) = None"
    by (simp add: test_world_def BAD_HOST_TIMEOUT_def JumpHost_init_def)
  have d: "docker_client_func (heap test_world ! 1) (host (heap test_world ! 1)) (env test_world) =
     (Inl TimeoutError, 1)"
    by (simp add: test_world_def BAD_HOST_TIMEOUT_def JumpHost_init_def)
  from b1 b2 have b: "connection_func (heap test_world ! 1) (host (heap test_world ! 1))
        (env test_world) = (Inl SocketTimeout, 2) \<or>
     (\<exists>c x1. connection_func (heap test_world ! 1) (host (heap test_world ! 1))
        (env test_world) = (Inr c, x1) \<and> conn_open c x1 = (Some SocketTimeout, 2))"
    by blast
  from connect_failure[of test_world 1 SocketTimeout 2 True TimeoutError 1] a b c d
  have "connect True 1 test_world =
     (Inl (ConnectionError (Some SocketTimeout)), test_world\<lparr>env := 2\<rparr>)"
    "cached_connection (heap (snd (connect True 1 test_world)) ! 1) = None"
    "docker_client True 1 test_world =
     (Inl (ConnectionError (Some TimeoutError)), test_world\<lparr>env := 1\<rparr>)"
    "cached_docker_client (heap (snd (docker_client True 1 test_world)) ! 1) = None"
    by simp_all
  with a b1 b2 c d show ?thesis by blast
qed

text \<open>
  C6.  Once \<open>connect\<close> has returned a handle \<open>c\<close>, the handle is cached, and every later
  call on the world it left, whatever the outside world has become in the meantime,
  returns \<open>c\<close> again and hands the world back unchanged: neither the factory nor \<open>open()\<close>
  is called, and a further call finds the same situation.  The same holds for
  \<open>docker_client\<close>.
\<close>

theorem connect_cached:
  assumes "self < length (heap w)"
  shows "(connect alias self w = (Inr c, w') \<longrightarrow>
            cached_connection (heap w' ! self) = Some c \<and>
            (\<forall>x. connect alias self (w'\<lparr>env := x\<rparr>) = (Inr c, w'\<lparr>env := x\<rparr>)))
       \<and> (docker_client alias self w = (Inr d, w'') \<longrightarrow>
            cached_docker_client (heap w'' ! self) = Some d \<and>
            (\<forall>x. docker_client alias self (w''\<lparr>env := x\<rparr>) = (Inr d, w''\<lparr>env := x\<rparr>)))"
proof (intro conjI impI)
  assume r: "connect alias self w = (Inr c, w')"
  show "cached_connection (heap w' ! self) = Some c"
    using r assms by (auto simp: connect_def split: option.splits prod.splits sum.splits if_splits)
  then show "\<forall>x. connect alias self (w'\<lparr>env := x\<rparr>) = (Inr c, w'\<lparr>env := x\<rparr>)"
    by (simp add: connect_def)
next
  assume r: "docker_client alias self w = (Inr d, w'')"
  show "cached_docker_client (heap w'' ! self) = Some d"
    using r assms
    by (auto simp: docker_client_def split: option.splits prod.splits sum.splits if_splits)
  then show "\<forall>x. docker_client alias self (w''\<lparr>env := x\<rparr>) = (Inr d, w''\<lparr>env := x\<rparr>)"
    by (simp add: docker_client_def)
qed

theorem connect_cached_witness:
  "2 < length (heap test_world) \<and>
   fst (connect False 2 test_world) = Inr \<lparr>conn_id = 0, conn_open = (\<lambda>y. (None, Suc y))\<rparr> \<and>
   env (snd (connect False 2 test_world)) = 2 \<and>
   connect False 2 (snd (connect False 2 test_world)) =
     (Inr \<lparr>conn_id = 0, conn_open = (\<lambda>y. (None, Suc y))\<rparr>, snd (connect False 2 test_world)) \<and>
   fst (docker_client False 2 test_world) = Inr (DockerClient 0) \<and>
   env (snd (docker_client False 2 test_world)) = 1 \<and>
   docker_client False 2 (snd (docker_client False 2 test_world)) =
     (Inr (DockerClient 0), snd (docker_client False 2 test_world))"
proof -
  have len: "2 < length (heap test_world)" by (simp add: test_world_def)
  have c1: "fst (connect False 2 test_world) = Inr \<lparr>conn_id = 0, conn_open = (\<lambda>y. (None, Suc y))\<rparr>"
    and c2: "env (snd (connect False 2 test_world)) = 2"
    by (simp_all add: connect_def connect_try_def test_world_def MOCK_HOST_GOOD_def
        JumpHost_init_def mock_connect_def)
  have d1: "fst (docker_client False 2 test_world) = Inr (DockerClient 0)"
    and d2: "env (snd (docker_client False 2 test_world)) = 1"
    by (simp_all add: docker_client_def test_world_def MOCK_HOST_GOOD_def JumpHost_init_def)
  have c: "connect False 2 test_world =
      (Inr \<lparr>conn_id = 0, conn_open = (\<lambda>y. (None, Suc y))\<rparr>, snd (connect False 2 test_world))"
    using c1 by (metis prod.collapse)
  have d: "docker_client False 2 test_world = (Inr (DockerClient 0), snd (docker_client False 2 test_world))"
    using d1 by (metis prod.collapse)
  from connect_cached[OF len, of False "\<lparr>conn_id = 0, conn_open = (\<lambda>y. (None, Suc y))\<rparr>"
      "snd (connect False 2 test_world)" "DockerClient 0"
      "snd (docker_client False 2 test_world)"] c d
  have A: "\<forall>x. connect False 2 (snd (connect False 2 test_world)\<lparr>env := x\<rparr>) =
          (Inr \<lparr>conn_id = 0, conn_open = (\<lambda>y. (None, Suc y))\<rparr>, snd (connect False 2 test_world)\<lparr>env := x\<rparr>)"
    and B: "\<forall>x. docker_client False 2 (snd (docker_client False 2 test_world)\<lparr>env := x\<rparr>) =
          (Inr (DockerClient 0), snd (docker_client False 2 test_world)\<lparr>env := x\<rparr>)"
    by blast+
  from A[rule_format, of "env (snd (connect False 2 test_world))"]
  have A': "connect False 2 (snd (connect False 2 test_world)) =
     (Inr \<lparr>conn_id = 0, conn_open = (\<lambda>y. (None, Suc y))\<rparr>, snd (connect False 2 test_world))"
    by simp
  from B[rule_format, of "env (snd (docker_client False 2 test_world))"]
  have B': "docker_client False 2 (snd (docker_client False 2 test_world)) =
     (Inr (DockerClient 0), snd (docker_client False 2 test_world))"
    by simp
  from len c1 c2 A' d1 d2 B' show ?thesis by blast
qed

section \<open>Properties of the fan-out\<close>












text \<open>
  C10.  Called with an empty collection of inputs, \<open>run_in_parallel\<close> raises an error,
  the \<open>ValueError\<close> of a pool asked for zero workers, in either mode and whatever the
  work.
\<close>

theorem run_in_parallel_empty:
  "run_in_parallel hashable finish [] operator_func return_exceptions = Some (Inl ValueError)"
  by (simp add: run_in_parallel_def ThreadPoolExecutor_def)

end
